theory Spec2Isabelle
  imports Main "HOL-Library.Word"
begin

section \<open>The timer engine of Timer.hpp\<close>

text \<open>
  \<^verbatim>\<open>template <typename T> class Timer\<close> keeps eight private fields:
  \<^verbatim>\<open>T _interval, _t0, _t1, _terr, _tstart, _frames; bool _started, _paused;\<close>.
  They become the fields of a record over the time unit \<open>'a\<close>, with the leading
  underscore of the C++ names dropped.

  The repository instantiates the template twice: \<^verbatim>\<open>Timer<long long>\<close> (KernelTimer,
  microseconds) and \<^verbatim>\<open>Timer<Uint32>\<close> (TimerSDL, milliseconds). The operations below are
  written once, over any type with the ring operations and a linear order, which covers
  both readings of \<open>T\<close>:
  \<^item> \<open>int\<close> (and every \<open>linordered_idom\<close>) for the signed 64-bit unit. Overflow of
    \<^verbatim>\<open>long long\<close> is undefined behaviour in C++, so the integers are the code only
    while every result stays in the 64-bit range (\<open>in_long_long\<close> below); a statement
    about every state of the signed timer carries that range as a premise;
  \<^item> \<open>32 word\<close> for \<^verbatim>\<open>Uint32\<close>, where \<open>+\<close>, \<open>-\<close> and \<^verbatim>\<open>++\<close> wrap modulo \<open>2 ^ 32\<close>
    and \<open><\<close> compares unsigned values, as C++ does for a type that is not narrower
    than \<^verbatim>\<open>int\<close>.

  The time source \<^verbatim>\<open>(*this->_timeFunc) ()\<close> is an external callable. Every operation that
  calls it takes the value returned by that call as its first argument \<open>tnow\<close>; an
  operation that calls it on one path only ignores the argument on the other paths.
\<close>

record 'a timer =
  interval :: 'a
  t0 :: 'a
  t1 :: 'a
  terr :: 'a
  tstart :: 'a
  frames :: 'a
  started :: bool
  paused :: bool

text \<open>\<^verbatim>\<open>reset ()\<close>, Timer.hpp lines 390-397: one sample, the interval and the flags are kept.\<close>

definition reset :: "'a::{comm_ring_1,linorder} \<Rightarrow> 'a timer \<Rightarrow> 'a timer" where
  "reset tnow s = s\<lparr>t0 := tnow, t1 := tnow, tstart := tnow, terr := 0, frames := 0\<rparr>"

text \<open>
  \<^verbatim>\<open>_init ()\<close>, lines 146-154, run by both constructors on the fresh object \<open>u\<close>, whose
  fields hold whatever the storage held: every field is overwritten.
\<close>

definition init :: "'a timer \<Rightarrow> 'a::{comm_ring_1,linorder} \<Rightarrow> 'a timer" where
  "init u tnow = (reset tnow (u\<lparr>interval := 0\<rparr>))\<lparr>started := False, paused := False\<rparr>"

text \<open>
  \<^verbatim>\<open>update ()\<close>, lines 174-238. The result pairs the returned \<^verbatim>\<open>bool\<close> with the state after
  the call. The branches are, in the order of the source: stopped or paused (the
  operands of \<^verbatim>\<open>||\<close> are tested left to right, both returning \<^verbatim>\<open>false\<close> before
  the time source is called); the wrap-around guard \<^verbatim>\<open>tnow < _t0\<close>; the debt branch
  \<^verbatim>\<open>_interval < _terr\<close>; the boundary branch \<^verbatim>\<open>tnow - _t0 >= _interval - _terr\<close>
  with its inner \<^verbatim>\<open>if\<close>; and the final \<^verbatim>\<open>else\<close>. In the debt branch \<^verbatim>\<open>_t0 = _t1\<close>
  reads the old \<^verbatim>\<open>_t1\<close>; in the boundary branch
  \<^verbatim>\<open>_t1 = tnow; _t0 = _t1\<close> makes both equal to \<open>tnow\<close>, and the new \<^verbatim>\<open>_terr\<close> is computed
  from the old \<^verbatim>\<open>_t0\<close> and \<^verbatim>\<open>_terr\<close> before them.
\<close>

definition update :: "'a::{comm_ring_1,linorder} \<Rightarrow> 'a timer \<Rightarrow> bool \<times> 'a timer" where
  "update tnow s =
     (if \<not> started s then (False, s)
      else if paused s then (False, s)
      else if tnow < t0 s then
        (False, s\<lparr>t0 := tnow, t1 := tnow, tstart := tnow\<rparr>)
      else if interval s < terr s then
        (True, s\<lparr>terr := 0, t0 := t1 s, t1 := tnow, frames := frames s + 1\<rparr>)
      else if tnow - t0 s \<ge> interval s - terr s then
        (True, s\<lparr>terr := (if interval s - terr s > tnow - t0 s then 0
                           else (tnow - t0 s) - (interval s + terr s)),
                  t1 := tnow, t0 := tnow, frames := frames s + 1\<rparr>)
      else (False, s))"

text \<open>\<^verbatim>\<open>pause ()\<close>, lines 287-290: a flag, no sample.\<close>

definition pause :: "'a timer \<Rightarrow> 'a timer" where
  "pause s = s\<lparr>paused := True\<rparr>"

text \<open>\<^verbatim>\<open>resume ()\<close>, lines 298-312: samples only when paused.\<close>

definition resume :: "'a::{comm_ring_1,linorder} \<Rightarrow> 'a timer \<Rightarrow> 'a timer" where
  "resume tnow s =
     (if paused s then
        (let dt = t1 s - t0 s in s\<lparr>t0 := tnow, t1 := tnow + dt, paused := False\<rparr>)
      else s)"

text \<open>
  \<^verbatim>\<open>start (interval)\<close>, lines 248-256: assigns the interval, calls \<^verbatim>\<open>reset ()\<close> (which
  samples, \<open>ta\<close>), then \<^verbatim>\<open>resume ()\<close> (which samples, \<open>tb\<close>, only when paused), then sets the
  flag.
\<close>

definition start :: "'a::{comm_ring_1,linorder} \<Rightarrow> 'a \<Rightarrow> 'a \<Rightarrow> 'a timer \<Rightarrow> 'a timer" where
  "start i ta tb s = (resume tb (reset ta (s\<lparr>interval := i\<rparr>)))\<lparr>started := True\<rparr>"

text \<open>\<^verbatim>\<open>stop ()\<close>, lines 264-269.\<close>

definition stop :: "'a::{comm_ring_1,linorder} timer \<Rightarrow> 'a timer" where
  "stop s = s\<lparr>interval := 0, started := False\<rparr>"

text \<open>The accessors, lines 332-362. All are \<^verbatim>\<open>const\<close> methods.\<close>

definition elapsed :: "'a::{comm_ring_1,linorder} timer \<Rightarrow> 'a" where
  "elapsed s = t1 s - tstart s"

definition getTicks :: "'a timer \<Rightarrow> 'a" where
  "getTicks s = t1 s"

definition getFrames :: "'a timer \<Rightarrow> 'a" where
  "getFrames s = frames s"

text \<open>
  \<^verbatim>\<open>waitTime ()\<close>, lines 373-382, a \<^verbatim>\<open>const\<close> method: it returns a value and has no state
  to return.
\<close>

definition waitTime :: "'a::{comm_ring_1,linorder} \<Rightarrow> 'a timer \<Rightarrow> 'a" where
  "waitTime tnow s =
     (if tnow > t0 s + terr s + interval s then 0
      else (t0 s + terr s + interval s) - tnow)"

text \<open>
  The values of \<^verbatim>\<open>long long\<close> (\<^verbatim>\<open>kernel_timer_t\<close>, KernelTimer.hpp line 6). Signed
  arithmetic in C++ is integer arithmetic as long as each result is one of them.
\<close>

definition in_long_long :: "int \<Rightarrow> bool" where
  "in_long_long x = (- (2 ^ 63) \<le> x \<and> x < 2 ^ 63)"

text \<open>
  A caller's polling loop: \<^verbatim>\<open>update ()\<close> called once for each sample of the list, in
  order, with nothing else called in between. The result lists the returned values
  and gives the final state.
\<close>

fun updates :: "'a::{comm_ring_1,linorder} list \<Rightarrow> 'a timer \<Rightarrow> bool list \<times> 'a timer" where
  "updates [] s = ([], s)"
| "updates (tnow # ts) s =
     (case update tnow s of (r, s') \<Rightarrow>
        (case updates ts s' of (rs, s'') \<Rightarrow> (r # rs, s'')))"

text \<open>The number of \<^verbatim>\<open>true\<close> returns in a list of results.\<close>

definition trues :: "bool list \<Rightarrow> nat" where
  "trues rs = length (filter (\<lambda>r. r) rs)"


section \<open>Basic facts about the operations\<close>

text \<open>The fields of the state that \<^verbatim>\<open>start (i)\<close> leaves, whatever the state before.\<close>

lemma start_fields:
  "interval (start i ta tb s) = i"
  "t0 (start i ta tb s) = (if paused s then tb else ta)"
  "t1 (start i ta tb s) = (if paused s then tb else ta)"
  "tstart (start i ta tb s) = ta"
  "terr (start i ta tb s) = 0"
  "frames (start i ta tb s) = 0"
  "started (start i ta tb s)"
  "\<not> paused (start i ta tb s)"
  by (simp_all add: start_def reset_def resume_def Let_def)

text \<open>The constructor's result does not depend on the storage it ran on.\<close>

lemma init_fields:
  "init u tnow = \<lparr>interval = 0, t0 = tnow, t1 = tnow, terr = 0, tstart = tnow,
     frames = 0, started = False, paused = False\<rparr>"
  by (cases u) (simp add: init_def reset_def)

text \<open>A timer that is constructed and then started: \<^verbatim>\<open>resume ()\<close> does not sample.\<close>

lemma start_init:
  "start i ta tb (init u tnow) =
     \<lparr>interval = i, t0 = ta, t1 = ta, terr = 0, tstart = ta, frames = 0,
      started = True, paused = False\<rparr>"
  by (simp add: init_fields start_def reset_def resume_def)

text \<open>A stopped or paused timer is left alone by \<^verbatim>\<open>update ()\<close>.\<close>

lemma update_idle:
  "\<not> started s \<or> paused s \<Longrightarrow> update tnow s = (False, s)"
  by (auto simp add: update_def)

lemma update_true_running:
  "fst (update tnow s) \<Longrightarrow> started s \<and> \<not> paused s"
  by (simp add: update_def split: if_splits)

text \<open>\<^verbatim>\<open>update ()\<close> never touches the interval or the flags.\<close>

lemma update_keeps:
  "interval (snd (update tnow s)) = interval s"
  "started (snd (update tnow s)) = started s"
  "paused (snd (update tnow s)) = paused s"
  by (simp_all add: update_def)

text \<open>The debt branch, lines 207-214.\<close>

lemma debt_branch:
  fixes s :: "'a::{comm_ring_1,linorder} timer"
  assumes "started s" and "\<not> paused s" and "t0 s \<le> tnow" and "interval s < terr s"
  shows "update tnow s =
           (True, s\<lparr>terr := 0, t0 := t1 s, t1 := tnow, frames := frames s + 1\<rparr>)"
  using assms by (simp add: update_def not_less)

text \<open>\<^verbatim>\<open>_frames ++\<close> runs on exactly the paths that return true.\<close>

lemma update_frames:
  "frames (snd (update tnow s)) = frames s + (if fst (update tnow s) then 1 else 0)"
  by (simp add: update_def)

lemma trues_Cons: "trues (r # rs) = (if r then 1 else 0) + trues rs"
  by (simp add: trues_def)

lemma trues_append: "trues (xs @ ys) = trues xs + trues ys"
  by (simp add: trues_def)

text \<open>
  Over a polling loop the counter grows, in the arithmetic of \<open>T\<close>, by the number of
  true returns.
\<close>

lemma updates_frames:
  "frames (snd (updates ts s)) = frames s + of_nat (trues (fst (updates ts s)))"
proof (induction ts arbitrary: s)
  case Nil
  show ?case by (simp add: trues_def)
next
  case (Cons tnow ts)
  obtain r s' where u: "update tnow s = (r, s')" by (cases "update tnow s")
  obtain rs s'' where v: "updates ts s' = (rs, s'')" by (cases "updates ts s'")
  have "frames s' = frames s + (if r then 1 else 0)"
    using update_frames [of tnow s] u by simp
  moreover have "frames s'' = frames s' + of_nat (trues rs)"
    using Cons.IH [of s'] v by simp
  ultimately show ?case
    using u v by (simp add: trues_Cons)
qed

lemma updates_append:
  "updates (xs @ ys) s =
     (fst (updates xs s) @ fst (updates ys (snd (updates xs s))),
      snd (updates ys (snd (updates xs s))))"
  by (induction xs arbitrary: s) (simp_all split: prod.splits)

text \<open>A longer prefix of the loop has seen at least as many true returns.\<close>

lemma trues_take_mono:
  assumes "i \<le> j"
  shows "trues (fst (updates (take i ts) s)) \<le> trues (fst (updates (take j ts) s))"
proof -
  have "take j ts = take i ts @ drop i (take j ts)"
    using assms by (metis append_take_drop_id min.absorb1 take_take)
  then have "updates (take j ts) s = updates (take i ts @ drop i (take j ts)) s"
    by simp
  then show ?thesis
    by (simp add: updates_append trues_append)
qed

lemma trues_take_le: "trues (fst (updates (take i ts) s)) \<le> trues (fst (updates ts s))"
  using trues_take_mono [of i "length ts" ts s]
  by (cases "i \<le> length ts") simp_all

text \<open>An unsigned counter that has room for all the true returns does not wrap.\<close>

lemma frames_word_nowrap:
  fixes w :: "'b::len word timer"
  assumes "unat (frames w) + trues (fst (updates ws w)) < 2 ^ LENGTH('b)"
  shows "unat (frames (snd (updates (take i ws) w))) =
           unat (frames w) + trues (fst (updates (take i ws) w))"
proof -
  have "unat (frames w) + trues (fst (updates (take i ws) w)) < 2 ^ LENGTH('b)"
    using assms trues_take_le [of i ws w] by linarith
  then show ?thesis
    by (simp add: updates_frames [of "take i ws" w] unat_word_ariths unat_of_nat)
qed

text \<open>
  A timer started with interval 0 and polled while the time source stands at 0 fires
  on every call; only the counter changes.
\<close>

lemma poll_zero:
  fixes s :: "'a::{comm_ring_1,linorder} timer"
  assumes "started s" "\<not> paused s" "interval s = 0" "t0 s = 0" "t1 s = 0" "terr s = 0"
  shows "updates (replicate n 0) s = (replicate n True, s\<lparr>frames := frames s + of_nat n\<rparr>)"
  using assms
proof (induction n arbitrary: s)
  case 0
  then show ?case by simp
next
  case (Suc n)
  have u: "update 0 s = (True, s\<lparr>frames := frames s + 1\<rparr>)"
    using Suc.prems by (cases s) (simp add: update_def)
  show ?case
    using Suc.IH [of "s\<lparr>frames := frames s + 1\<rparr>"] Suc.prems u
    by (simp add: add.assoc add.commute)
qed

text \<open>Two subtractions on words, read on the unsigned values.\<close>

lemma uint_sub_sub:
  fixes a b c :: "'a::len word"
  shows "uint (a - b - c) = (uint a - uint b - uint c) mod 2 ^ LENGTH('a)"
  by (simp add: uint_word_ariths mod_diff_left_eq)

text \<open>
  The value of \<^verbatim>\<open>waitTime ()\<close> in the arithmetic of each model: on the integers, and on
  words with the sum taken in \<open>T\<close>, where it may wrap.
\<close>

lemma waitTime_value:
  "waitTime tnow (s :: 'a::linordered_idom timer) =
     max 0 ((t0 s + terr s + interval s) - tnow)"
  by (simp add: waitTime_def max_def)

lemma waitTime_value_unsigned:
  "uint (waitTime wnow (w :: 'b::len word timer)) =
     max 0 (uint (t0 w + terr w + interval w) - uint wnow)"
  by (simp add: waitTime_def max_def uint_sub_if' word_less_def word_le_def)

text \<open>A sum of three words that fits the width is the sum of the unsigned values.\<close>

lemma uint_add3_nowrap:
  fixes a b c :: "'b::len word"
  assumes "unat a + unat b + unat c < 2 ^ LENGTH('b)"
  shows "uint (a + b + c) = uint a + uint b + uint c"
proof -
  have "unat (a + b + c) = (unat a + unat b + unat c) mod 2 ^ LENGTH('b)"
    by (simp add: unat_word_ariths mod_add_left_eq)
  also have "\<dots> = unat a + unat b + unat c"
    using assms by simp
  finally have "int (unat (a + b + c)) = int (unat a + unat b + unat c)"
    by simp
  then show ?thesis
    unfolding uint_nat by simp
qed

text \<open>On the signed unit \<^verbatim>\<open>waitTime ()\<close> is never negative.\<close>

lemma waitTime_nonneg:
  fixes s :: "'a::linordered_idom timer"
  shows "0 \<le> waitTime tnow s"
  by (simp add: waitTime_def)

section \<open>The claims\<close>

subsection \<open>C1: the error stored by the boundary branch\<close>

text \<open>
  C1 says that the boundary branch stores the overshoot beyond the compensated
  threshold, \<open>(tnow - t0) - (interval - tErrorOld)\<close>. The source comment of the branch
  agrees (\<^verbatim>\<open>add any error in timing to the error accumulator\<close>), but line 225 assigns
  \<^verbatim>\<open>(tnow - _t0) - (_interval + _terr)\<close>, subtracting the old error. The two differ as soon
  as the old error is not 0. The run below is the microsecond timer constructed at
  sample 0, started with interval 100 and updated at sample 150, which leaves
  \<open>t0 = 150\<close> and \<open>tError = 50\<close>. The update at sample 300 takes the boundary branch
  (gap 150, threshold 50) and stores 0, where the overshoot beyond the threshold is
  100.
\<close>

theorem boundary_branch_subtracts_old_error:
  fixes u :: "int timer"
  shows "(let s = snd (update 150 (start 100 0 0 (init u 0)))
          in s = \<lparr>interval = 100, t0 = 150, t1 = 150, terr = 50, tstart = 0, frames = 1,
                   started = True, paused = False\<rparr> \<and>
             fst (update 300 s) \<and>
             terr (snd (update 300 s)) = 0 \<and>
             (300 - t0 s) - (interval s - terr s) = 100)"
  by (simp add: start_init update_def)

subsection \<open>C2: how far tError can get\<close>

text \<open>
  C2 as stated fails: the boundary branch stores the new tError without comparing it
  with the interval. A timer started at sample 0 with interval 100 and updated at
  sample 1000 returns true and holds \<open>tError = 900\<close>.
\<close>

theorem terr_exceeds_interval_after_true:
  "(let s = \<lparr>interval = 100, t0 = 0, t1 = 0, terr = 0, tstart = 0, frames = 0,
              started = True, paused = False\<rparr> :: int timer;
        s' = snd (update 1000 s)
    in fst (update 1000 s) \<and> terr s' = 900 \<and> interval s' = 100 \<and>
       \<not> \<bar>terr s'\<bar> \<le> interval s')"
  by (simp add: update_def)

text \<open>
  C2, amended. The bound is enforced one call late, by the debt check at lines 207-214
  (\<^verbatim>\<open>if (_interval < _terr)\<close>). After an \<^verbatim>\<open>update ()\<close> that returned true: if the call took
  the debt branch (tError exceeded the interval before it), tError is 0; and if tError
  exceeds the interval after the call, then the next \<^verbatim>\<open>update ()\<close>, with any sample not
  below t0, returns true and sets tError to 0. So a tError above the interval never
  survives two such calls in a row. This holds for every unit type.
\<close>

theorem terr_excess_cleared_by_next_update:
  fixes s :: "'a::{comm_ring_1,linorder} timer"
  assumes "fst (update tnow s)"
  shows "(interval s < terr s \<longrightarrow> terr (snd (update tnow s)) = 0) \<and>
         (\<forall>tnow'. interval s < terr (snd (update tnow s)) \<and>
                   t0 (snd (update tnow s)) \<le> tnow' \<longrightarrow>
            fst (update tnow' (snd (update tnow s))) \<and>
            terr (snd (update tnow' (snd (update tnow s)))) = 0)"
proof (intro conjI allI impI)
  assume "interval s < terr s"
  with assms show "terr (snd (update tnow s)) = 0"
    by (simp add: update_def split: if_splits)
next
  fix tnow'
  let ?s' = "snd (update tnow s)"
  assume a: "interval s < terr ?s' \<and> t0 ?s' \<le> tnow'"
  have r: "started ?s'" "\<not> paused ?s'"
    using update_true_running [OF assms] by (simp_all add: update_keeps)
  have i: "interval ?s' < terr ?s'"
    using a by (simp add: update_keeps)
  have "update tnow' ?s' =
          (True, ?s'\<lparr>terr := 0, t0 := t1 ?s', t1 := tnow', frames := frames ?s' + 1\<rparr>)"
    using r a i by (intro debt_branch) simp_all
  then show "fst (update tnow' ?s')" "terr (snd (update tnow' ?s')) = 0"
    by simp_all
qed

theorem terr_excess_cleared_by_next_update_witness:
  "(let s = \<lparr>interval = 100, t0 = 0, t1 = 0, terr = 0, tstart = 0, frames = 0,
              started = True, paused = False\<rparr> :: int timer;
        s' = snd (update 1000 s);
        d = \<lparr>interval = 100, t0 = 1000, t1 = 1000, terr = 900, tstart = 0, frames = 1,
              started = True, paused = False\<rparr> :: int timer
    in fst (update 1000 s) \<and> interval s < terr s' \<and> t0 s' \<le> 1000 \<and>
       fst (update 1000 s') \<and> terr (snd (update 1000 s')) = 0 \<and>
       fst (update 1000 d) \<and> interval d < terr d \<and> terr (snd (update 1000 d)) = 0)"
proof -
  let ?s = "\<lparr>interval = 100, t0 = 0, t1 = 0, terr = 0, tstart = 0, frames = 0,
              started = True, paused = False\<rparr> :: int timer"
  let ?d = "\<lparr>interval = 100, t0 = 1000, t1 = 1000, terr = 900, tstart = 0, frames = 1,
              started = True, paused = False\<rparr> :: int timer"
  have hs: "fst (update 1000 ?s)" by (simp add: update_def)
  have hd: "fst (update 1000 ?d)" by (simp add: update_def)
  have e: "interval ?s < terr (snd (update 1000 ?s))" "t0 (snd (update 1000 ?s)) \<le> 1000"
    by (simp_all add: update_def)
  have i: "interval ?d < terr ?d" by simp
  have a: "fst (update 1000 (snd (update 1000 ?s))) \<and>
           terr (snd (update 1000 (snd (update 1000 ?s)))) = 0"
    using terr_excess_cleared_by_next_update [OF hs] e by blast
  have b: "terr (snd (update 1000 ?d)) = 0"
    using terr_excess_cleared_by_next_update [OF hd] i by blast
  show ?thesis
    unfolding Let_def using hs hd e i a b by blast
qed

subsection \<open>C3: pause and resume\<close>

text \<open>
  C3 says that half an interval run before a pause still counts after it. The comment
  of \<^verbatim>\<open>resume ()\<close> promises as much (\<^verbatim>\<open>the same time elapsed before the pause occured is
  shown\<close>), but what lines 304-308 carry over is \<open>t1 - t0\<close>, which is 0 here:
  \<^verbatim>\<open>pause ()\<close> takes no sample and an \<^verbatim>\<open>update ()\<close> that returns false records nothing, so
  the time run since t0 is not in the state. The run below is the microsecond timer
  constructed and started at sample 0 with interval 100, polled at sample 50 (false),
  paused, resumed \<open>d\<close> later at sample \<open>50 + d\<close>, for any \<open>d\<close>. \<^verbatim>\<open>resume ()\<close> moves t0 to the
  resume sample, and \<^verbatim>\<open>update ()\<close> returns false 50 later and still false 99 later; it
  returns true only a whole interval after the resume.
\<close>

theorem pause_resume_restarts_interval:
  fixes u :: "int timer"
  shows "(let s0 = start 100 0 0 (init u 0);
              s1 = snd (update 50 s0);
              s2 = resume (50 + d) (pause s1)
          in \<not> fst (update 50 s0) \<and>
             t0 s2 = 50 + d \<and> t1 s2 = 50 + d \<and>
             \<not> fst (update (50 + d + 50) s2) \<and>
             \<not> fst (update (50 + d + 99) s2) \<and>
             fst (update (50 + d + 100) s2))"
  by (simp add: start_init update_def pause_def resume_def)

subsection \<open>C4: waitTime against update\<close>

text \<open>
  C4 has two parts. The first, \<open>waitTime () \<ge> 0\<close>, holds (\<open>waitTime_nonneg\<close> above; on
  an unsigned unit there is nothing to prove). The second, that \<^verbatim>\<open>waitTime ()\<close> is 0
  whenever \<^verbatim>\<open>update ()\<close> would return true on the same sample, is what the comment of
  \<^verbatim>\<open>waitTime ()\<close> announces (\<^verbatim>\<open>or 0 if the timer has already elapsed but we haven't called
  update () yet\<close>), and it fails: \<^verbatim>\<open>update ()\<close> fires at
  \<open>tnow - t0 \<ge> interval - tError\<close>, while \<^verbatim>\<open>waitTime ()\<close> waits until
  \<open>t0 + tError + interval\<close>, with the error on the other side. The run below
  is the microsecond timer constructed and started at sample 0 with interval 100 and
  updated at sample 150 (\<open>t0 = 150\<close>, \<open>tError = 50\<close>). On sample 200 \<^verbatim>\<open>update ()\<close> returns
  true and \<^verbatim>\<open>waitTime ()\<close> returns 100.
\<close>

theorem waitTime_positive_while_update_fires:
  fixes u :: "int timer"
  shows "(let s = snd (update 150 (start 100 0 0 (init u 0)))
          in s = \<lparr>interval = 100, t0 = 150, t1 = 150, terr = 50, tstart = 0, frames = 1,
                   started = True, paused = False\<rparr> \<and>
             fst (update 200 s) \<and> waitTime 200 s = 100)"
  by (simp add: start_init update_def waitTime_def)

subsection \<open>C5: the value of waitTime\<close>

text \<open>
  C5 as stated fails where the sum \<open>t0 + tError + interval\<close> leaves the range of \<open>T\<close>:
  \<^verbatim>\<open>waitTime ()\<close> computes it in \<open>T\<close> (lines 377 and 380). On the 32-bit millisecond
  timer started with interval \<open>4294967295\<close> at tick 10, the sum wraps to 9, the sample
  10 is above it and \<^verbatim>\<open>waitTime ()\<close> returns 0, where
  \<open>max 0 ((t0 + tError + interval) - tnow)\<close> is \<open>4294967295\<close>.
\<close>

theorem waitTime_sum_wraps_uint32:
  "(let s = \<lparr>interval = 4294967295, t0 = 10, t1 = 10, terr = 0, tstart = 10,
              frames = 0, started = True, paused = False\<rparr> :: 32 word timer
    in waitTime 10 s = 0 \<and>
       max 0 ((uint (t0 s) + uint (terr s) + uint (interval s)) - uint (10 :: 32 word)) =
         4294967295)"
  by (simp add: waitTime_def)

text \<open>
  The state is the one a \<^verbatim>\<open>Timer<Uint32>\<close> constructed at tick 10 holds after
  \<^verbatim>\<open>start (4294967295)\<close> at the same tick.
\<close>

lemma waitTime_sum_wraps_uint32_reached:
  "start 4294967295 10 10 (init (u :: 32 word timer) 10) =
     \<lparr>interval = 4294967295, t0 = 10, t1 = 10, terr = 0, tstart = 10,
      frames = 0, started = True, paused = False\<rparr>"
  by (simp add: start_init)

text \<open>
  C5, amended by a range proviso. \<^verbatim>\<open>waitTime ()\<close> samples the time source once (the one
  argument) and, being a \<^verbatim>\<open>const\<close> method, returns a number and no state. As long as
  the sum \<open>t0 + tError + interval\<close> does not leave the range of \<open>T\<close>, that number is
  exactly \<open>max 0 ((t0 + tError + interval) - tnow)\<close>:
  \<^item> on the signed 64-bit unit, provided \<open>t0 + tError\<close> and \<open>t0 + tError + interval\<close>
    are \<^verbatim>\<open>long long\<close> values and the difference to \<open>tnow\<close> is below \<open>2 ^ 63\<close>; the
    returned value is then a \<^verbatim>\<open>long long\<close> value too;
  \<^item> on an unsigned unit of \<open>w\<close> bits, provided \<open>t0 + tError + interval < 2 ^ w\<close> on
    the unsigned values; the formula is then read on the unsigned values.
\<close>

theorem waitTime_clamped_difference_in_range:
  fixes s :: "int timer" and w :: "'b::len word timer"
  shows "(in_long_long (t0 s + terr s) \<and> in_long_long (t0 s + terr s + interval s) \<and>
          (t0 s + terr s + interval s) - tnow < 2 ^ 63 \<longrightarrow>
          waitTime tnow s = max 0 ((t0 s + terr s + interval s) - tnow) \<and>
          in_long_long (waitTime tnow s)) \<and>
         (unat (t0 w) + unat (terr w) + unat (interval w) < 2 ^ LENGTH('b) \<longrightarrow>
          uint (waitTime wnow w) =
            max 0 ((uint (t0 w) + uint (terr w) + uint (interval w)) - uint wnow))"
proof (intro conjI impI)
  show "waitTime tnow s = max 0 ((t0 s + terr s + interval s) - tnow)"
    by (rule waitTime_value)
next
  assume "in_long_long (t0 s + terr s) \<and> in_long_long (t0 s + terr s + interval s) \<and>
          (t0 s + terr s + interval s) - tnow < 2 ^ 63"
  then show "in_long_long (waitTime tnow s)"
    by (simp add: in_long_long_def waitTime_def)
next
  assume "unat (t0 w) + unat (terr w) + unat (interval w) < 2 ^ LENGTH('b)"
  then have "uint (t0 w + terr w + interval w) =
               uint (t0 w) + uint (terr w) + uint (interval w)"
    by (rule uint_add3_nowrap)
  then show "uint (waitTime wnow w) =
               max 0 ((uint (t0 w) + uint (terr w) + uint (interval w)) - uint wnow)"
    using waitTime_value_unsigned [of wnow w] by simp
qed

theorem waitTime_clamped_difference_in_range_witness:
  "(let s = \<lparr>interval = 100, t0 = 150, t1 = 150, terr = 50, tstart = 0, frames = 1,
              started = True, paused = False\<rparr> :: int timer;
        w = \<lparr>interval = 100, t0 = 4294967000, t1 = 4294967000, terr = 50, tstart = 0,
              frames = 1, started = True, paused = False\<rparr> :: 32 word timer
    in in_long_long (t0 s + terr s) \<and> in_long_long (t0 s + terr s + interval s) \<and>
       (t0 s + terr s + interval s) - 200 < 2 ^ 63 \<and>
       waitTime 200 s = 100 \<and> in_long_long (waitTime 200 s) \<and>
       unat (t0 w) + unat (terr w) + unat (interval w) < 2 ^ 32 \<and>
       uint (waitTime 4294967100 w) = 50)"
proof -
  let ?s = "\<lparr>interval = 100, t0 = 150, t1 = 150, terr = 50, tstart = 0, frames = 1,
              started = True, paused = False\<rparr> :: int timer"
  let ?w = "\<lparr>interval = 100, t0 = 4294967000, t1 = 4294967000, terr = 50, tstart = 0,
              frames = 1, started = True, paused = False\<rparr> :: 32 word timer"
  note g = waitTime_clamped_difference_in_range [of ?s 200 ?w 4294967100]
  have hs: "in_long_long (t0 ?s + terr ?s) \<and>
            in_long_long (t0 ?s + terr ?s + interval ?s) \<and>
            (t0 ?s + terr ?s + interval ?s) - 200 < 2 ^ 63"
    by (simp add: in_long_long_def)
  have hw: "unat (t0 ?w) + unat (terr ?w) + unat (interval ?w) < 2 ^ LENGTH(32)"
    by simp
  note gs = g [THEN conjunct1, rule_format, OF hs]
  note gw = g [THEN conjunct2, rule_format, OF hw]
  have a: "waitTime 200 ?s = 100"
    using gs [THEN conjunct1] by simp
  have b: "in_long_long (waitTime 200 ?s)"
    by (rule gs [THEN conjunct2])
  have c: "uint (waitTime 4294967100 ?w) = 50"
    using gw by simp
  have hw': "unat (t0 ?w) + unat (terr ?w) + unat (interval ?w) < 2 ^ 32"
    using hw by simp
  show ?thesis
    unfolding Let_def
    by (intro conjI hs [THEN conjunct1] hs [THEN conjunct2, THEN conjunct1]
        hs [THEN conjunct2, THEN conjunct2] a b hw' c)
qed

subsection \<open>C6: the example scenario\<close>

text \<open>
  C6. With interval 100000 and the timer started at sample 0: at sample 50000
  \<^verbatim>\<open>update ()\<close> returns false and \<^verbatim>\<open>waitTime ()\<close> returns 50000; at sample 100000
  \<^verbatim>\<open>update ()\<close> returns true and frames is 1; at sample 250000 \<^verbatim>\<open>update ()\<close> returns true,
  frames is 2 and tError is 50000; at sample 260000 \<^verbatim>\<open>update ()\<close> returns false. The
  timer is the microsecond one (\<open>int\<close>), started from any earlier state \<open>s\<close>.
\<close>

theorem example_scenario:
  fixes s :: "int timer"
  shows "(let s0 = start 100000 0 0 s;
              s1 = snd (update 50000 s0);
              s2 = snd (update 100000 s1);
              s3 = snd (update 250000 s2)
          in \<not> fst (update 50000 s0) \<and> waitTime 50000 s1 = 50000 \<and>
             fst (update 100000 s1) \<and> getFrames s2 = 1 \<and>
             fst (update 250000 s2) \<and> getFrames s3 = 2 \<and> terr s3 = 50000 \<and>
             \<not> fst (update 260000 s3))"
proof -
  define s0 where "s0 = start 100000 0 0 s"
  have f0: "interval s0 = 100000" "t0 s0 = 0" "terr s0 = 0" "frames s0 = 0"
    "started s0" "\<not> paused s0"
    by (simp_all add: s0_def start_fields)
  have u1: "update 50000 s0 = (False, s0)"
    using f0 by (simp add: update_def)
  have w1: "waitTime 50000 s0 = 50000"
    using f0 by (simp add: waitTime_def)
  define s2 where "s2 = s0\<lparr>terr := 0, t1 := 100000, t0 := 100000, frames := 1\<rparr>"
  have u2: "update 100000 s0 = (True, s2)"
    using f0 by (simp add: update_def s2_def)
  have f2: "interval s2 = 100000" "t0 s2 = 100000" "terr s2 = 0" "frames s2 = 1"
    "started s2" "\<not> paused s2"
    using f0 by (simp_all add: s2_def)
  define s3 where "s3 = s2\<lparr>terr := 50000, t1 := 250000, t0 := 250000, frames := 2\<rparr>"
  have u3: "update 250000 s2 = (True, s3)"
    using f2 by (simp add: update_def s3_def)
  have f3: "interval s3 = 100000" "t0 s3 = 250000" "terr s3 = 50000" "frames s3 = 2"
    "started s3" "\<not> paused s3"
    using f2 by (simp_all add: s3_def)
  have u4: "update 260000 s3 = (False, s3)"
    using f3 by (simp add: update_def)
  show ?thesis
    unfolding Let_def s0_def [symmetric]
    by (simp add: u1 w1 u2 u3 u4 f2 f3 getFrames_def)
qed

text \<open>The same scenario on the 32-bit millisecond timer: every value fits.\<close>

lemma example_scenario_uint32:
  fixes s :: "32 word timer"
  shows "(let s0 = start 100000 0 0 s;
              s1 = snd (update 50000 s0);
              s2 = snd (update 100000 s1);
              s3 = snd (update 250000 s2)
          in \<not> fst (update 50000 s0) \<and> waitTime 50000 s1 = 50000 \<and>
             fst (update 100000 s1) \<and> getFrames s2 = 1 \<and>
             fst (update 250000 s2) \<and> getFrames s3 = 2 \<and> terr s3 = 50000 \<and>
             \<not> fst (update 260000 s3))"
proof -
  define s0 where "s0 = start 100000 0 0 s"
  have f0: "interval s0 = 100000" "t0 s0 = 0" "terr s0 = 0" "frames s0 = 0"
    "started s0" "\<not> paused s0"
    by (simp_all add: s0_def start_fields)
  have u1: "update 50000 s0 = (False, s0)"
    using f0 by (simp add: update_def)
  have w1: "waitTime 50000 s0 = 50000"
    using f0 by (simp add: waitTime_def)
  define s2 where "s2 = s0\<lparr>terr := 0, t1 := 100000, t0 := 100000, frames := 1\<rparr>"
  have u2: "update 100000 s0 = (True, s2)"
    using f0 by (simp add: update_def s2_def)
  have f2: "interval s2 = 100000" "t0 s2 = 100000" "terr s2 = 0" "frames s2 = 1"
    "started s2" "\<not> paused s2"
    using f0 by (simp_all add: s2_def)
  define s3 where "s3 = s2\<lparr>terr := 50000, t1 := 250000, t0 := 250000, frames := 2\<rparr>"
  have u3: "update 250000 s2 = (True, s3)"
    using f2 by (simp add: update_def s3_def)
  have f3: "interval s3 = 100000" "t0 s3 = 250000" "terr s3 = 50000" "frames s3 = 2"
    "started s3" "\<not> paused s3"
    using f2 by (simp_all add: s3_def)
  have u4: "update 260000 s3 = (False, s3)"
    using f3 by (simp add: update_def)
  show ?thesis
    unfolding Let_def s0_def [symmetric]
    by (simp add: u1 w1 u2 u3 u4 f2 f3 getFrames_def)
qed

subsection \<open>C7: the wrap-around guard\<close>

text \<open>
  C7. For a started, unpaused timer and a sample \<open>tnow < t0\<close>, \<^verbatim>\<open>update ()\<close> sets
  \<open>t0 = t1 = tStart = tnow\<close>, changes nothing else and returns false. The model has no
  error value because the source has no error path, and this branch subtracts nothing;
  the reported \<^verbatim>\<open>elapsed ()\<close> is 0 afterwards. The next \<^verbatim>\<open>update ()\<close>, with any sample
  \<open>tnow'\<close> not below the new baseline, measures the non-negative gap \<open>tnow' - tnow\<close>
  from that baseline: it returns true exactly when the debt branch applies or the gap
  reaches \<open>interval - tError\<close>. Whatever the next sample is, \<^verbatim>\<open>elapsed ()\<close> stays
  non-negative. (A call that returns false leaves the state as it is, so the same
  holds for every later call up to the first that returns true.)
\<close>

theorem wraparound_guard_resets_baseline:
  fixes s :: "'a::linordered_idom timer"
  assumes "started s" and "\<not> paused s" and "tnow < t0 s"
  shows "update tnow s = (False, s\<lparr>t0 := tnow, t1 := tnow, tstart := tnow\<rparr>) \<and>
         elapsed (snd (update tnow s)) = 0 \<and>
         (\<forall>tnow'. tnow \<le> tnow' \<longrightarrow>
            0 \<le> tnow' - t0 (snd (update tnow s)) \<and>
            fst (update tnow' (snd (update tnow s))) =
              (interval s < terr s \<or> interval s - terr s \<le> tnow' - tnow)) \<and>
         (\<forall>tnow'. 0 \<le> elapsed (snd (update tnow' (snd (update tnow s)))))"
  using assms by (auto simp add: update_def elapsed_def)

theorem wraparound_guard_resets_baseline_witness:
  "(let s = \<lparr>interval = 100, t0 = 500, t1 = 500, terr = 20, tstart = 0,
              frames = 4, started = True, paused = False\<rparr> :: int timer
    in started s \<and> \<not> paused s \<and> 7 < t0 s \<and>
       update 7 s = (False, s\<lparr>t0 := 7, t1 := 7, tstart := 7\<rparr>) \<and>
       elapsed (snd (update 7 s)) = 0 \<and>
       \<not> fst (update 86 (snd (update 7 s))) \<and>
       fst (update 87 (snd (update 7 s))))"
proof -
  let ?s = "\<lparr>interval = 100, t0 = 500, t1 = 500, terr = 20, tstart = 0,
              frames = 4, started = True, paused = False\<rparr> :: int timer"
  have h: "started ?s" "\<not> paused ?s" "7 < t0 ?s"
    by simp_all
  note g = wraparound_guard_resets_baseline [OF h]
  have a: "update 7 ?s = (False, ?s\<lparr>t0 := 7, t1 := 7, tstart := 7\<rparr>)"
    using g by blast
  have b: "elapsed (snd (update 7 ?s)) = 0"
    using g by blast
  have n: "\<forall>tnow'. 7 \<le> tnow' \<longrightarrow>
            fst (update tnow' (snd (update 7 ?s))) =
              (interval ?s < terr ?s \<or> interval ?s - terr ?s \<le> tnow' - 7)"
    using g by blast
  have c: "\<not> fst (update 86 (snd (update 7 ?s)))"
    using n [rule_format, of 86] by simp
  have d: "fst (update 87 (snd (update 7 ?s)))"
    using n [rule_format, of 87] by simp
  show ?thesis
    unfolding Let_def using h a b c d by blast
qed

text \<open>
  The guard on an unsigned unit, where it is met when the tick counter wraps: the same
  reset, and the gap the next call takes from the new baseline is the true difference
  of the unsigned values.
\<close>

lemma wraparound_guard_unsigned:
  fixes s :: "'a::len word timer"
  assumes "started s" and "\<not> paused s" and "tnow < t0 s"
  shows "update tnow s = (False, s\<lparr>t0 := tnow, t1 := tnow, tstart := tnow\<rparr>) \<and>
         elapsed (snd (update tnow s)) = 0 \<and>
         (\<forall>tnow'. tnow \<le> tnow' \<longrightarrow>
            uint (tnow' - t0 (snd (update tnow s))) = uint tnow' - uint tnow \<and>
            fst (update tnow' (snd (update tnow s))) =
              (interval s < terr s \<or> interval s - terr s \<le> tnow' - tnow))"
proof -
  have u: "update tnow s = (False, s\<lparr>t0 := tnow, t1 := tnow, tstart := tnow\<rparr>)"
    using assms by (simp add: update_def)
  have g: "uint (tnow' - tnow) = uint tnow' - uint tnow" if "tnow \<le> tnow'" for tnow'
    using that by (simp add: uint_sub_if' word_le_def)
  show ?thesis
    unfolding u using assms g by (auto simp add: update_def elapsed_def)
qed

subsection \<open>C8: the frame counter\<close>

text \<open>
  C8 as stated fails on the unsigned unit: \<^verbatim>\<open>_frames\<close> has type \<open>T\<close>, and \<^verbatim>\<open>_frames ++\<close> on
  a \<^verbatim>\<open>Uint32\<close> holding \<open>2 ^ 32 - 1\<close> gives 0. In the state below \<^verbatim>\<open>update ()\<close> returns true
  and \<^verbatim>\<open>getFrames ()\<close> falls from 4294967295 to 0.
\<close>

theorem frames_wrap_uint32:
  "(let s = \<lparr>interval = 0, t0 = 0, t1 = 0, terr = 0, tstart = 0,
              frames = 4294967295, started = True, paused = False\<rparr> :: 32 word timer
    in started s \<and> \<not> paused s \<and> fst (update 0 s) \<and>
       getFrames s = 4294967295 \<and> getFrames (snd (update 0 s)) = 0)"
  by (simp add: update_def getFrames_def)

text \<open>
  The state is reached by the loop alone: a \<^verbatim>\<open>Timer<Uint32>\<close> started with interval 0
  (which the engine accepts) and polled \<open>2 ^ 32 - 1\<close> times while the tick counter
  stands at 0 returns true every time.
\<close>

lemma frames_wrap_uint32_reached:
  "updates (replicate 4294967295 0) (start 0 0 0 (u :: 32 word timer)) =
     (replicate 4294967295 True,
      \<lparr>interval = 0, t0 = 0, t1 = 0, terr = 0, tstart = 0,
       frames = 4294967295, started = True, paused = False\<rparr>)"
proof -
  have "updates (replicate 4294967295 0) (start 0 0 0 u) =
          (replicate 4294967295 True,
           (start 0 0 0 u)\<lparr>frames := frames (start 0 0 0 u) + of_nat 4294967295\<rparr>)"
    by (rule poll_zero) (simp_all add: start_fields)
  moreover have "(start 0 0 0 u)\<lparr>frames := frames (start 0 0 0 u) + of_nat 4294967295\<rparr> =
          \<lparr>interval = 0, t0 = 0, t1 = 0, terr = 0, tstart = 0,
           frames = 4294967295, started = True, paused = False\<rparr>"
    by (cases u) (simp add: start_def reset_def resume_def Let_def)
  ultimately show ?thesis by simp
qed

text \<open>
  C8, amended: the claim holds as long as the counter does not wrap. For every sequence
  of \<^verbatim>\<open>update ()\<close> calls (with no \<^verbatim>\<open>reset ()\<close> or \<^verbatim>\<open>start ()\<close> in between; running and
  unpaused or not): on the signed unit, read in the integers, \<^verbatim>\<open>getFrames ()\<close> after the
  calls is \<^verbatim>\<open>getFrames ()\<close> before plus the number of true returns, and it never
  decreases from one call to a later one; on an unsigned unit of \<open>w\<close> bits the same two
  facts hold provided the counter before the calls plus the number of true returns
  stays below \<open>2 ^ w\<close>. (\<open>take i ts\<close> is the first \<open>i\<close> calls of the sequence.)
\<close>

theorem frames_count_true_returns:
  fixes s :: "'a::linordered_idom timer" and w :: "'b::len word timer"
  shows "(getFrames (snd (updates ts s)) =
            getFrames s + of_nat (trues (fst (updates ts s))) \<and>
          (\<forall>i j. i \<le> j \<longrightarrow>
             getFrames (snd (updates (take i ts) s)) \<le>
             getFrames (snd (updates (take j ts) s)))) \<and>
         (unat (getFrames w) + trues (fst (updates ws w)) < 2 ^ LENGTH('b) \<longrightarrow>
          unat (getFrames (snd (updates ws w))) =
            unat (getFrames w) + trues (fst (updates ws w)) \<and>
          (\<forall>i j. i \<le> j \<longrightarrow>
             getFrames (snd (updates (take i ws) w)) \<le>
             getFrames (snd (updates (take j ws) w))))"
proof (intro conjI impI allI)
  show "getFrames (snd (updates ts s)) = getFrames s + of_nat (trues (fst (updates ts s)))"
    by (simp add: getFrames_def updates_frames)
next
  fix i j :: nat
  assume "i \<le> j"
  then show "getFrames (snd (updates (take i ts) s)) \<le> getFrames (snd (updates (take j ts) s))"
    by (simp add: getFrames_def updates_frames trues_take_mono)
next
  assume "unat (getFrames w) + trues (fst (updates ws w)) < 2 ^ LENGTH('b)"
  then have a: "unat (frames w) + trues (fst (updates ws w)) < 2 ^ LENGTH('b)"
    by (simp add: getFrames_def)
  show "unat (getFrames (snd (updates ws w))) =
          unat (getFrames w) + trues (fst (updates ws w))"
    using frames_word_nowrap [OF a, of "length ws"] by (simp add: getFrames_def)
next
  fix i j :: nat
  assume "unat (getFrames w) + trues (fst (updates ws w)) < 2 ^ LENGTH('b)"
  then have a: "unat (frames w) + trues (fst (updates ws w)) < 2 ^ LENGTH('b)"
    by (simp add: getFrames_def)
  assume "i \<le> j"
  then show "getFrames (snd (updates (take i ws) w)) \<le> getFrames (snd (updates (take j ws) w))"
    by (simp add: getFrames_def word_le_nat_alt frames_word_nowrap [OF a] trues_take_mono)
qed

theorem frames_count_true_returns_witness:
  "(let s = \<lparr>interval = 100, t0 = 0, t1 = 0, terr = 0, tstart = 0, frames = 0,
              started = True, paused = False\<rparr> :: int timer;
        ts = [50, 100, 250, 260];
        w = \<lparr>interval = 100, t0 = 0, t1 = 0, terr = 0, tstart = 0,
              frames = 4294967294, started = True, paused = False\<rparr> :: 32 word timer;
        ws = [50, 100]
    in fst (updates ts s) = [False, True, True, False] \<and>
       getFrames (snd (updates ts s)) = 2 \<and>
       getFrames (snd (updates (take 1 ts) s)) \<le> getFrames (snd (updates (take 3 ts) s)) \<and>
       fst (updates ws w) = [False, True] \<and>
       unat (getFrames w) + trues (fst (updates ws w)) < 2 ^ 32 \<and>
       unat (getFrames (snd (updates ws w))) = 4294967295 \<and>
       getFrames (snd (updates (take 1 ws) w)) \<le> getFrames (snd (updates (take 2 ws) w)))"
proof -
  let ?s = "\<lparr>interval = 100, t0 = 0, t1 = 0, terr = 0, tstart = 0, frames = 0,
              started = True, paused = False\<rparr> :: int timer"
  let ?ts = "[50, 100, 250, 260] :: int list"
  let ?w = "\<lparr>interval = 100, t0 = 0, t1 = 0, terr = 0, tstart = 0,
              frames = 4294967294, started = True, paused = False\<rparr> :: 32 word timer"
  let ?ws = "[50, 100] :: 32 word list"
  note g = frames_count_true_returns [of ?ts ?s ?w ?ws]
  have rs: "fst (updates ?ts ?s) = [False, True, True, False]"
    by (simp add: update_def)
  have rw: "fst (updates ?ws ?w) = [False, True]"
    by (simp add: update_def)
  have room: "unat (getFrames ?w) + trues (fst (updates ?ws ?w)) < 2 ^ LENGTH(32)"
    unfolding rw by (simp add: getFrames_def trues_def)
  have "getFrames (snd (updates ?ts ?s)) = getFrames ?s + of_nat (trues (fst (updates ?ts ?s)))"
    by (rule g [THEN conjunct1, THEN conjunct1])
  then have a: "getFrames (snd (updates ?ts ?s)) = 2"
    unfolding rs by (simp add: getFrames_def trues_def)
  have le13: "(1::nat) \<le> 3" by simp
  have b: "getFrames (snd (updates (take 1 ?ts) ?s)) \<le> getFrames (snd (updates (take 3 ?ts) ?s))"
    by (rule g [THEN conjunct1, THEN conjunct2, rule_format, OF le13])
  note gw = g [THEN conjunct2, rule_format, OF room]
  have "unat (getFrames (snd (updates ?ws ?w))) =
          unat (getFrames ?w) + trues (fst (updates ?ws ?w))"
    by (rule gw [THEN conjunct1])
  then have c: "unat (getFrames (snd (updates ?ws ?w))) = 4294967295"
    unfolding rw by (simp add: getFrames_def trues_def)
  have le12: "(1::nat) \<le> 2" by simp
  have d: "getFrames (snd (updates (take 1 ?ws) ?w)) \<le> getFrames (snd (updates (take 2 ?ws) ?w))"
    by (rule gw [THEN conjunct2, rule_format, OF le12])
  have room': "unat (getFrames ?w) + trues (fst (updates ?ws ?w)) < 2 ^ 32"
    using room by simp
  show ?thesis
    unfolding Let_def by (intro conjI rs a b rw room' c d)
qed

subsection \<open>C9: the inner assignment of the boundary branch\<close>

text \<open>
  C9. Whenever \<^verbatim>\<open>update ()\<close> enters the boundary branch (started, not paused, the guard
  and the debt check passed, \<open>interval - tError \<le> tnow - t0\<close>), the inner condition
  \<open>interval - tError > tnow - t0\<close> is false, so the assignment \<^verbatim>\<open>_terr = 0\<close> under it is
  never executed and tError is assigned \<open>(tnow - t0) - (interval + tError)\<close>. This
  holds for every unit type, signed or unsigned.
\<close>

theorem boundary_inner_branch_dead:
  fixes s :: "'a::{comm_ring_1,linorder} timer"
  assumes "started s" and "\<not> paused s" and "\<not> tnow < t0 s"
    and "\<not> interval s < terr s" and "interval s - terr s \<le> tnow - t0 s"
  shows "\<not> (interval s - terr s > tnow - t0 s) \<and>
         update tnow s =
           (True, s\<lparr>terr := (tnow - t0 s) - (interval s + terr s),
                     t1 := tnow, t0 := tnow, frames := frames s + 1\<rparr>)"
  using assms by (simp add: update_def not_less)

theorem boundary_inner_branch_dead_witness:
  "(let s = \<lparr>interval = 100, t0 = 150, t1 = 150, terr = 50, tstart = 0,
              frames = 1, started = True, paused = False\<rparr> :: int timer
    in started s \<and> \<not> paused s \<and> \<not> 300 < t0 s \<and> \<not> interval s < terr s \<and>
       interval s - terr s \<le> 300 - t0 s \<and>
       \<not> (interval s - terr s > 300 - t0 s) \<and>
       update 300 s = (True, s\<lparr>terr := 0, t1 := 300, t0 := 300, frames := 2\<rparr>))"
proof -
  let ?s = "\<lparr>interval = 100, t0 = 150, t1 = 150, terr = 50, tstart = 0,
              frames = 1, started = True, paused = False\<rparr> :: int timer"
  have h: "started ?s" "\<not> paused ?s" "\<not> 300 < t0 ?s" "\<not> interval ?s < terr ?s"
    "interval ?s - terr ?s \<le> 300 - t0 ?s"
    by simp_all
  from boundary_inner_branch_dead [OF h] show ?thesis
    by (simp add: Let_def)
qed

subsection \<open>C10: the stored error on an unsigned unit\<close>

text \<open>
  C10 as stated fails for long intervals. The value stored by line 225 is
  \<open>(g - interval - e) mod 2 ^ w\<close>, that is \<open>2 ^ w - (interval + e - g)\<close>, and this
  exceeds the interval only when \<open>2 * interval + e - g < 2 ^ w\<close>. On the 32-bit
  millisecond timer with interval \<open>1500000000\<close>, \<open>e = 1500000000\<close> and \<open>g = 0\<close>, every
  premise of the claim holds, the stored value is \<open>1294967296\<close>, which is below the
  interval, and the next \<^verbatim>\<open>update ()\<close> on the same sample returns false.
\<close>

theorem unsigned_terr_wrap_below_interval:
  "(let s = \<lparr>interval = 1500000000, t0 = 3000000000, t1 = 3000000000,
              terr = 1500000000, tstart = 0, frames = 1, started = True,
              paused = False\<rparr> :: 32 word timer;
        s' = snd (update 3000000000 s)
    in started s \<and> \<not> paused s \<and> t0 s \<le> 3000000000 \<and>
       0 < terr s \<and> terr s \<le> interval s \<and>
       interval s - terr s \<le> 3000000000 - t0 s \<and>
       unat (3000000000 - t0 s) < unat (interval s) + unat (terr s) \<and>
       fst (update 3000000000 s) \<and>
       terr s' = 1294967296 \<and> \<not> interval s' < terr s' \<and>
       t0 s' \<le> 3000000000 \<and> \<not> fst (update 3000000000 s'))"
  by (simp add: update_def)

text \<open>
  The state of this run is the one a \<^verbatim>\<open>Timer<Uint32>\<close> constructed and started at tick 0
  with that interval holds after its first \<^verbatim>\<open>update ()\<close>, at tick \<open>3000000000\<close>.
\<close>

lemma unsigned_terr_wrap_below_interval_reached:
  "snd (update 3000000000 (start 1500000000 0 0 (init (u :: 32 word timer) 0))) =
     \<lparr>interval = 1500000000, t0 = 3000000000, t1 = 3000000000,
      terr = 1500000000, tstart = 0, frames = 1, started = True, paused = False\<rparr>"
  by (simp add: start_init update_def)

text \<open>
  C10, amended by the bound \<open>2 * interval + e - g < 2 ^ w\<close> (it holds whenever
  \<open>3 * interval < 2 ^ w\<close>). For an unsigned unit of \<open>w\<close> bits: if the boundary branch of
  \<^verbatim>\<open>update ()\<close> fires (started, not paused, \<open>t0 \<le> tnow\<close>,
  \<open>interval - e \<le> g\<close> for the gap \<open>g = tnow - t0\<close>) with previous tError \<open>e\<close>,
  \<open>0 < e \<le> interval\<close>, with \<open>g < interval + e\<close> on the unsigned values, and with
  \<open>2 * interval + e < 2 ^ w + g\<close>, then the call returns true, the stored tError is
  \<open>g - interval - e\<close> in \<open>T\<close>, whose unsigned value is \<open>(g - interval - e) mod 2 ^ w\<close>,
  it exceeds the interval, and the next \<^verbatim>\<open>update ()\<close>, with any sample not below the
  new t0, returns true (through the debt branch) and sets tError to 0. The word model
  is the C++ arithmetic for an unsigned \<open>T\<close> that is not narrower than \<^verbatim>\<open>int\<close>.
\<close>

theorem unsigned_terr_wraps_and_refires:
  fixes s :: "'a::len word timer"
  assumes run: "started s" "\<not> paused s" and guard: "t0 s \<le> tnow"
    and e: "0 < terr s" "terr s \<le> interval s"
    and fire: "interval s - terr s \<le> tnow - t0 s"
    and short: "unat (tnow - t0 s) < unat (interval s) + unat (terr s)"
    and room: "2 * unat (interval s) + unat (terr s) < 2 ^ LENGTH('a) + unat (tnow - t0 s)"
  shows "fst (update tnow s) \<and>
         terr (snd (update tnow s)) = (tnow - t0 s) - interval s - terr s \<and>
         uint (terr (snd (update tnow s))) =
           (uint (tnow - t0 s) - uint (interval s) - uint (terr s)) mod 2 ^ LENGTH('a) \<and>
         interval s < terr (snd (update tnow s)) \<and>
         (\<forall>tnow'. t0 (snd (update tnow s)) \<le> tnow' \<longrightarrow>
            fst (update tnow' (snd (update tnow s))) \<and>
            terr (snd (update tnow' (snd (update tnow s)))) = 0)"
proof -
  let ?g = "tnow - t0 s"
  let ?s' = "s\<lparr>terr := ?g - (interval s + terr s), t1 := tnow, t0 := tnow,
               frames := frames s + 1\<rparr>"
  have u: "update tnow s = (True, ?s')"
    using run guard e fire by (simp add: update_def not_less)
  have t: "terr ?s' = ?g - interval s - terr s"
    by (simp add: diff_diff_eq)
  have m: "uint (terr ?s') =
             (uint ?g - uint (interval s) - uint (terr s)) mod 2 ^ LENGTH('a)"
    unfolding t by (rule uint_sub_sub)
  have p: "int (2 ^ LENGTH('a)) = 2 ^ LENGTH('a)"
    by simp
  have lo: "uint ?g - uint (interval s) - uint (terr s) < 0"
    using short unfolding uint_nat by linarith
  have "int (2 * unat (interval s) + unat (terr s)) < int (2 ^ LENGTH('a) + unat ?g)"
    using room by (simp only: of_nat_less_iff)
  then have hi: "uint (interval s) - 2 ^ LENGTH('a) <
                   uint ?g - uint (interval s) - uint (terr s)"
    unfolding uint_nat of_nat_add p by linarith
  have ipos: "0 \<le> uint (interval s)" by simp
  have v: "(uint ?g - uint (interval s) - uint (terr s)) mod 2 ^ LENGTH('a) =
             uint ?g - uint (interval s) - uint (terr s) + 2 ^ LENGTH('a)"
  proof -
    have "0 \<le> uint ?g - uint (interval s) - uint (terr s) + 2 ^ LENGTH('a)"
      using hi ipos by linarith
    moreover have "uint ?g - uint (interval s) - uint (terr s) + 2 ^ LENGTH('a) <
                     2 ^ LENGTH('a)"
      using lo by linarith
    ultimately have "(uint ?g - uint (interval s) - uint (terr s) + 2 ^ LENGTH('a))
                       mod 2 ^ LENGTH('a) =
                     uint ?g - uint (interval s) - uint (terr s) + 2 ^ LENGTH('a)"
      by (rule mod_pos_pos_trivial)
    then show ?thesis by simp
  qed
  have big: "interval s < terr ?s'"
    unfolding word_less_def m v using hi by linarith
  have nxt: "fst (update tnow' ?s') \<and> terr (snd (update tnow' ?s')) = 0"
    if "t0 ?s' \<le> tnow'" for tnow'
  proof -
    have "update tnow' ?s' =
            (True, ?s'\<lparr>terr := 0, t0 := t1 ?s', t1 := tnow', frames := frames ?s' + 1\<rparr>)"
      using run that big by (intro debt_branch) simp_all
    then show ?thesis by simp
  qed
  show ?thesis
    unfolding u fst_conv snd_conv using t m big nxt by blast
qed

theorem unsigned_terr_wraps_and_refires_witness:
  "(let s = \<lparr>interval = 100, t0 = 150, t1 = 150, terr = 50, tstart = 0, frames = 1,
              started = True, paused = False\<rparr> :: 32 word timer;
        s' = snd (update 260 s)
    in started s \<and> \<not> paused s \<and> t0 s \<le> 260 \<and> 0 < terr s \<and> terr s \<le> interval s \<and>
       interval s - terr s \<le> 260 - t0 s \<and>
       unat (260 - t0 s) < unat (interval s) + unat (terr s) \<and>
       2 * unat (interval s) + unat (terr s) < 2 ^ 32 + unat (260 - t0 s) \<and>
       fst (update 260 s) \<and> terr s' = 4294967256 \<and> interval s < terr s' \<and>
       t0 s' \<le> 260 \<and> fst (update 260 s') \<and> terr (snd (update 260 s')) = 0)"
proof -
  let ?s = "\<lparr>interval = 100, t0 = 150, t1 = 150, terr = 50, tstart = 0, frames = 1,
              started = True, paused = False\<rparr> :: 32 word timer"
  have h: "started ?s" "\<not> paused ?s" "t0 ?s \<le> 260" "0 < terr ?s" "terr ?s \<le> interval ?s"
    "interval ?s - terr ?s \<le> 260 - t0 ?s"
    "unat (260 - t0 ?s) < unat (interval ?s) + unat (terr ?s)"
    "2 * unat (interval ?s) + unat (terr ?s) < 2 ^ LENGTH(32) + unat (260 - t0 ?s)"
    by simp_all
  note g = unsigned_terr_wraps_and_refires [OF h]
  have t: "terr (snd (update 260 ?s)) = 4294967256"
    using g by simp
  have b: "t0 (snd (update 260 ?s)) \<le> 260"
    by (simp add: update_def)
  have n: "fst (update 260 (snd (update 260 ?s))) \<and>
           terr (snd (update 260 (snd (update 260 ?s)))) = 0"
    using g b by blast
  have f: "fst (update 260 ?s)" "interval ?s < terr (snd (update 260 ?s))"
    using g by blast+
  have h': "2 * unat (interval ?s) + unat (terr ?s) < 2 ^ 32 + unat (260 - t0 ?s)"
    by simp
  show ?thesis
    unfolding Let_def using h(1-7) h' f t b n by blast
qed

end
